theory Spec2Isabelle
  imports Main "HOL-Library.Char_ord" "HOL-Library.List_Lexorder" "HOL-Library.Multiset"
begin

section \<open>Python values and built-ins used by localisation.py\<close>

text \<open>
  Python strings are modelled as \<^typ>\<open>string\<close>: a list of characters, each character a
  code point in the range 0..255 (ASCII and Latin-1). Exceptions are values of
  \<open>py_error\<close>, carrying the exception class and its message; a function that may raise
  returns \<open>py_error + 'a\<close> with \<open>Inl\<close> for the exception.
  The constructor \<open>Unmodelled\<close> marks what is outside this development: in a format
  string, a replacement field with a conversion, a format specification, or attribute or
  index access; in \<open>set_language\<close>, the loop over the fonts, whose body the source does
  not have. No theorem below derives a successful result from it.
\<close>

datatype py_error =
    ValueError string
  | KeyError string
  | TypeError string
  | IndexError string
  | AttributeError string
  | Unmodelled string

definition code_point :: "char \<Rightarrow> nat" where
  "code_point c = of_char c"

text \<open>\<open>str.isalnum\<close>, \<open>str.isspace\<close> on one character, for code points 0..255.\<close>

definition isalnum_char :: "char \<Rightarrow> bool" where
  "isalnum_char c =
     (let n = code_point c in
        (48 \<le> n \<and> n \<le> 57) \<or> (65 \<le> n \<and> n \<le> 90) \<or> (97 \<le> n \<and> n \<le> 122) \<or>
        n = 170 \<or> n = 178 \<or> n = 179 \<or> n = 181 \<or> n = 185 \<or> n = 186 \<or>
        (188 \<le> n \<and> n \<le> 190) \<or> (192 \<le> n \<and> n \<le> 214) \<or>
        (216 \<le> n \<and> n \<le> 246) \<or> 248 \<le> n)"

definition isspace_char :: "char \<Rightarrow> bool" where
  "isspace_char c =
     (let n = code_point c in
        (9 \<le> n \<and> n \<le> 13) \<or> (28 \<le> n \<and> n \<le> 32) \<or> n = 133 \<or> n = 160)"

text \<open>\<open>s.isspace()\<close>: at least one character, and all of them whitespace.\<close>

definition isspace :: "string \<Rightarrow> bool" where
  "isspace s = (s \<noteq> [] \<and> list_all isspace_char s)"

text \<open>\<open>s.startswith(p)\<close>.\<close>

definition startswith :: "string \<Rightarrow> string \<Rightarrow> bool" where
  "startswith s p = (take (length p) s = p)"

subsection \<open>int()\<close>

text \<open>
  \<open>int(s)\<close> for a string, base 10: surrounding whitespace is dropped (the characters
  \<open>int\<close> skips: 9..13, 32, and the Latin-1 spaces 133 and 160), then an optional sign, then
  decimal digits, where single underscores may separate digits.
\<close>

definition int_space :: "char \<Rightarrow> bool" where
  "int_space c =
     (let n = code_point c in (9 \<le> n \<and> n \<le> 13) \<or> n = 32 \<or> n = 133 \<or> n = 160)"

definition is_digit :: "char \<Rightarrow> bool" where
  "is_digit c = (48 \<le> code_point c \<and> code_point c \<le> 57)"

definition digit_val :: "char \<Rightarrow> nat" where
  "digit_val c = code_point c - 48"

fun int_digits :: "nat \<Rightarrow> string \<Rightarrow> nat option" where
  "int_digits acc [] = Some acc"
| "int_digits acc (c # cs) =
     (if is_digit c then int_digits (10 * acc + digit_val c) cs
      else if c = CHR ''_'' then
        (case cs of
           [] \<Rightarrow> None
         | d # ds \<Rightarrow> if is_digit d then int_digits (10 * acc + digit_val d) ds else None)
      else None)"

definition int_unsigned :: "string \<Rightarrow> nat option" where
  "int_unsigned s =
     (case s of
        [] \<Rightarrow> None
      | d # ds \<Rightarrow> if is_digit d then int_digits (digit_val d) ds else None)"

definition int_literal :: "string \<Rightarrow> int option" where
  "int_literal s =
     (case s of
        [] \<Rightarrow> None
      | c # cs \<Rightarrow>
          if c = CHR ''-'' then map_option (\<lambda>n. - int n) (int_unsigned cs)
          else if c = CHR ''+'' then map_option int (int_unsigned cs)
          else map_option int (int_unsigned s))"

definition int_strip :: "string \<Rightarrow> string" where
  "int_strip s = rev (dropWhile int_space (rev (dropWhile int_space s)))"

subsection \<open>str.format_map and str.format\<close>

text \<open>\<open>str(i)\<close> for an integer.\<close>

fun nat_digits :: "nat \<Rightarrow> string" where
  "nat_digits n =
     (if n < 10 then [char_of (48 + n)]
      else nat_digits (n div 10) @ [char_of (48 + n mod 10)])"

definition int_str :: "int \<Rightarrow> string" where
  "int_str i = (if i < 0 then CHR ''-'' # nat_digits (nat (- i)) else nat_digits (nat i))"

text \<open>
  A replacement field whose name has one of these characters uses a conversion, a format
  specification, attribute or index access, or a nested field.
\<close>

definition special_field :: "string \<Rightarrow> bool" where
  "special_field name = list_ex (\<lambda>c. c \<in> set ''!:.[{'') name"

text \<open>
  An empty or all-digit name is a positional field. The digits are read as an index,
  which must fit a signed 64-bit integer.
\<close>

definition field_index :: "string \<Rightarrow> int" where
  "field_index name = foldl (\<lambda>acc c. 10 * acc + int (digit_val c)) 0 name"

definition too_many_digits :: "string \<Rightarrow> bool" where
  "too_many_digits name = (field_index name > 9223372036854775807)"

text \<open>
  The dictionary given to \<open>format_map\<close>, with \<open>str(value)\<close> in the place of each value:
  the string, or the exception that \<open>str\<close> raises. \<open>str\<close> is called for the fields the
  format string names, as they are reached.
\<close>

type_synonym rendered = "(string \<times> (py_error + string)) list"

text \<open>
  The value of a replacement field \<open>{name}\<close> under \<open>format_map\<close>: a positional field
  is refused; any other name is looked up in the mapping.
\<close>

definition field_value :: "rendered \<Rightarrow> string \<Rightarrow> py_error + string" where
  "field_value rd name =
     (if special_field name then Inl (Unmodelled name)
      else if list_all is_digit name then
        (if too_many_digits name
         then Inl (ValueError ''Too many decimal digits in format string'')
         else Inl (ValueError ''Format string contains positional fields''))
      else (case map_of rd name of
              None \<Rightarrow> Inl (KeyError name)
            | Some r \<Rightarrow> r))"

text \<open>
  The value of a replacement field under \<open>format(*args)\<close> without keyword arguments:
  an empty name takes the next argument, a number takes that argument, and the two ways
  of numbering cannot be mixed; any other name is a missing keyword.
\<close>

datatype numbering = Unset | Automatic nat | Manual

definition positional_arg :: "string list \<Rightarrow> nat \<Rightarrow> py_error + string" where
  "positional_arg args i =
     (if i < length args then Inr (args ! i)
      else Inl (IndexError (''Replacement index '' @ nat_digits i @
                            '' out of range for positional args tuple'')))"

definition positional_value ::
  "string list \<Rightarrow> numbering \<Rightarrow> string \<Rightarrow> py_error + string \<times> numbering" where
  "positional_value args num name =
     (if special_field name then Inl (Unmodelled name)
      else if name = [] then
        (case num of
           Manual \<Rightarrow>
             Inl (ValueError (''cannot switch from manual field specification '' @
                              ''to automatic field numbering''))
         | Unset \<Rightarrow> map_sum id (\<lambda>v. (v, Automatic 1)) (positional_arg args 0)
         | Automatic n \<Rightarrow> map_sum id (\<lambda>v. (v, Automatic (Suc n))) (positional_arg args n))
      else if list_all is_digit name then
        (if too_many_digits name
         then Inl (ValueError ''Too many decimal digits in format string'')
         else (case num of
                 Automatic n \<Rightarrow>
                   Inl (ValueError (''cannot switch from automatic field numbering '' @
                                    ''to manual field specification''))
               | _ \<Rightarrow>
                   map_sum id (\<lambda>v. (v, Manual)) (positional_arg args (nat (field_index name)))))
      else Inl (KeyError name))"

definition emit :: "string \<Rightarrow> py_error + string \<Rightarrow> py_error + string" where
  "emit out r = (case r of Inl e \<Rightarrow> Inl e | Inr s \<Rightarrow> Inr (out @ s))"

text \<open>
  The format string is read left to right: \<open>{{\<close> and \<open>}}\<close> are the escaped braces, a
  \<open>{\<close> opens a replacement field that runs to the next \<open>}\<close>, and the first malformed
  place or failing field raises. \<open>fv\<close> gives the value of a field; \<open>s\<close> is the state of
  the numbering.
\<close>

fun format_text :: "('s \<Rightarrow> string \<Rightarrow> py_error + string \<times> 's) \<Rightarrow> 's \<Rightarrow> string \<Rightarrow> py_error + string"
  and format_field ::
    "('s \<Rightarrow> string \<Rightarrow> py_error + string \<times> 's) \<Rightarrow> 's \<Rightarrow> string \<Rightarrow> string \<Rightarrow> py_error + string" where
  "format_text fv s [] = Inr []"
| "format_text fv s (c # cs) =
     (if c = CHR ''{'' then
        (case cs of
           [] \<Rightarrow> Inl (ValueError ''Single '{' encountered in format string'')
         | d # ds \<Rightarrow>
             if d = CHR ''{'' then emit ''{'' (format_text fv s ds)
             else format_field fv s [] cs)
      else if c = CHR ''}'' then
        (case cs of
           [] \<Rightarrow> Inl (ValueError ''Single '}' encountered in format string'')
         | d # ds \<Rightarrow>
             if d = CHR ''}'' then emit ''}'' (format_text fv s ds)
             else Inl (ValueError ''Single '}' encountered in format string''))
      else emit [c] (format_text fv s cs))"
| "format_field fv s name [] = Inl (ValueError ''expected '}' before end of string'')"
| "format_field fv s name (c # cs) =
     (if c = CHR ''}'' then
        (case fv s name of
           Inl e \<Rightarrow> Inl e
         | Inr (v, s') \<Rightarrow> emit v (format_text fv s' cs))
      else format_field fv s (name @ [c]) cs)"

text \<open>\<open>template.format_map(mapping)\<close> and \<open>template.format(*args)\<close>.\<close>

definition format_map :: "string \<Rightarrow> rendered \<Rightarrow> py_error + string" where
  "format_map template rd =
     format_text (\<lambda>u name. map_sum id (\<lambda>v. (v, u)) (field_value rd name)) () template"

definition str_format :: "string \<Rightarrow> string list \<Rightarrow> py_error + string" where
  "str_format template args = format_text (positional_value args) Unset template"

subsection \<open>str.join, list.sort, str.split, str.replace\<close>

fun str_join :: "string \<Rightarrow> string list \<Rightarrow> string" where
  "str_join sep [] = []"
| "str_join sep [x] = x"
| "str_join sep (x # y # ys) = x @ sep @ str_join sep (y # ys)"

text \<open>\<open>s.split(sep)\<close> for a one-character separator.\<close>

fun split_on :: "char \<Rightarrow> string \<Rightarrow> string list" where
  "split_on sep [] = [[]]"
| "split_on sep (c # cs) =
     (if c = sep then [] # split_on sep cs
      else (case split_on sep cs of
              [] \<Rightarrow> [[c]]
            | p # ps \<Rightarrow> (c # p) # ps))"

text \<open>\<open>value.replace("\\'", "'")\<close>: a backslash followed by an apostrophe becomes the apostrophe.\<close>

fun replace_escaped_apostrophe :: "string \<Rightarrow> string" where
  "replace_escaped_apostrophe (a # b # cs) =
     (if a = CHR 0x5C \<and> b = CHR 0x27 then b # replace_escaped_apostrophe cs
      else a # replace_escaped_apostrophe (b # cs))"
| "replace_escaped_apostrophe cs = cs"

text \<open>The first exception of a list of results, or all the values.\<close>

fun collect :: "(py_error + 'a) list \<Rightarrow> py_error + 'a list" where
  "collect [] = Inr []"
| "collect (r # rs) =
     (case r of
        Inl e \<Rightarrow> Inl e
      | Inr x \<Rightarrow> (case collect rs of Inl e \<Rightarrow> Inl e | Inr xs \<Rightarrow> Inr (x # xs)))"

section \<open>Tokens\<close>

definition NS_UI :: string where "NS_UI = ''<BEE2>''"
definition NS_GAME :: string where "NS_GAME = ''<PORTAL2>''"
definition NS_UNTRANSLATED :: string where "NS_UNTRANSLATED = ''<NOTRANSLATE>''"
definition PETI_KEY_PREFIX :: string where "PETI_KEY_PREFIX = ''PORTAL2_PuzzleEditor''"

text \<open>
  The values that interpolation parameters take (the source types them as \<open>object\<close>):
  strings, integers, \<open>None\<close>, and tokens, which the callers pass as parameters of other
  tokens. The three token classes have their fields in the order of the attrs classes:
  namespace, token, parameters, then \<open>token_plural\<close>, or \<open>children\<close> and \<open>sort\<close>.
  The parameters are a \<open>dict\<close> with string keys, in insertion order.
\<close>

datatype pyval = PyStr string | PyInt int | PyNone | PyToken trans_token
  and trans_token =
    TransToken string string "(string \<times> pyval) list"
  | PluralTransToken string string "(string \<times> pyval) list" string
  | JoinTransToken string string "(string \<times> pyval) list" "trans_token list" bool

type_synonym params = "(string \<times> pyval) list"

text \<open>A dictionary built by Python has no repeated key.\<close>

definition dict_wf :: "params \<Rightarrow> bool" where
  "dict_wf ps = distinct (map fst ps)"

text \<open>
  \<open>int(v)\<close>. The message of the \<open>ValueError\<close> ends with \<open>repr(s)\<close>; it is given here
  in its plain form, the string between apostrophes, without the escapes \<open>repr\<close> adds.
  The token classes have no \<open>__int__\<close>.
\<close>

fun class_name :: "trans_token \<Rightarrow> string" where
  "class_name (TransToken ns tok ps) = ''TransToken''"
| "class_name (PluralTransToken ns tok ps pl) = ''PluralTransToken''"
| "class_name (JoinTransToken ns tok ps ch srt) = ''JoinTransToken''"

definition int_type_error :: "string \<Rightarrow> py_error" where
  "int_type_error cls =
     TypeError (''int() argument must be a string, a bytes-like object '' @
                ''or a real number, not '' @ [CHR 0x27] @ cls @ [CHR 0x27])"

definition py_int :: "pyval \<Rightarrow> py_error + int" where
  "py_int v =
     (case v of
        PyInt i \<Rightarrow> Inr i
      | PyNone \<Rightarrow> Inl (int_type_error ''NoneType'')
      | PyToken t \<Rightarrow> Inl (int_type_error (class_name t))
      | PyStr s \<Rightarrow>
          (case int_literal (int_strip s) of
             Some i \<Rightarrow> Inr i
           | None \<Rightarrow>
               Inl (ValueError (''invalid literal for int() with base 10: '' @
                                [CHR 0x27] @ s @ [CHR 0x27]))))"

fun namespace :: "trans_token \<Rightarrow> string" where
  "namespace (TransToken ns tok ps) = ns"
| "namespace (PluralTransToken ns tok ps pl) = ns"
| "namespace (JoinTransToken ns tok ps ch srt) = ns"

fun token :: "trans_token \<Rightarrow> string" where
  "token (TransToken ns tok ps) = tok"
| "token (PluralTransToken ns tok ps pl) = tok"
| "token (JoinTransToken ns tok ps ch srt) = tok"

fun parameters :: "trans_token \<Rightarrow> params" where
  "parameters (TransToken ns tok ps) = ps"
| "parameters (PluralTransToken ns tok ps pl) = ps"
| "parameters (JoinTransToken ns tok ps ch srt) = ps"

text \<open>\<open>TransToken.ui\<close> and \<open>TransToken.untranslated\<close>.\<close>

definition ui :: "string \<Rightarrow> params \<Rightarrow> trans_token" where
  "ui tok kwargs = TransToken NS_UI tok kwargs"

definition untranslated :: "string \<Rightarrow> trans_token" where
  "untranslated text = TransToken NS_UNTRANSLATED text []"

text \<open>\<open>__bool__\<close>, inherited by all three classes.\<close>

definition token_bool :: "trans_token \<Rightarrow> bool" where
  "token_bool t = (token t \<noteq> [] \<and> \<not> isspace (token t))"

section \<open>The translators and the module state\<close>

text \<open>
  A compiled catalog (\<open>gettext.GNUTranslations\<close>, read from a \<open>.mo\<close> file) is taken as its
  two lookup functions. \<open>NullTranslations\<close> returns its argument; \<open>DummyTranslations\<close> is
  the class of this module.
\<close>

record catalog =
  cat_gettext :: "string \<Rightarrow> string"
  cat_ngettext :: "string \<Rightarrow> string \<Rightarrow> int \<Rightarrow> string"

datatype translator =
    NullTranslations
  | DummyTranslations
  | GNUTranslations catalog

text \<open>\<open>DummyTranslations.gettext\<close> and \<open>ngettext\<close>.\<close>

definition dummy_gettext :: "string \<Rightarrow> string" where
  "dummy_gettext message =
     map (\<lambda>s. if isalnum_char s \<or> s = CHR ''{'' \<or> s = CHR ''}'' then CHR ''#'' else s) message"

definition dummy_ngettext :: "string \<Rightarrow> string \<Rightarrow> int \<Rightarrow> string" where
  "dummy_ngettext msgid1 msgid2 n = dummy_gettext (if n = 1 then msgid1 else msgid2)"

fun gettext :: "translator \<Rightarrow> string \<Rightarrow> string" where
  "gettext NullTranslations message = message"
| "gettext DummyTranslations message = dummy_gettext message"
| "gettext (GNUTranslations cat) message = cat_gettext cat message"

fun ngettext :: "translator \<Rightarrow> string \<Rightarrow> string \<Rightarrow> int \<Rightarrow> string" where
  "ngettext NullTranslations msgid1 msgid2 n = (if n = 1 then msgid1 else msgid2)"
| "ngettext DummyTranslations msgid1 msgid2 n = dummy_ngettext msgid1 msgid2 n"
| "ngettext (GNUTranslations cat) msgid1 msgid2 n = cat_ngettext cat msgid1 msgid2 n"

text \<open>\<open>isinstance(_TRANSLATOR, DummyTranslations)\<close>.\<close>

fun is_dummy :: "translator \<Rightarrow> bool" where
  "is_dummy DummyTranslations = True"
| "is_dummy _ = False"

text \<open>
  Widgets, menus and callbacks belong to the GUI toolkit and to the callers; they are
  identified by numbers, and what the module does to them is recorded, in order, in
  \<open>calls\<close>: \<open>widget['text'] = s\<close>, \<open>menu.entryconfigure(index, label=s)\<close>,
  \<open>win.title(s)\<close>, and the call of a registered function. What a registered function
  does when called is not in this module: it is given by the environment, below.
\<close>

type_synonym widget = nat
type_synonym menu = nat
type_synonym callback = nat

datatype gui_call =
    SetText widget string
  | EntryConfigure menu int string
  | SetTitle widget string
  | Call callback

text \<open>The module's globals.\<close>

record state =
  TRANSLATOR :: translator
  TRANSLATIONS :: "string \<rightharpoonup> (string \<rightharpoonup> string)"
  PROP_FLAGS_DEFAULT :: "string \<rightharpoonup> bool"
  applied_tokens :: "(widget \<times> trans_token) list"
  applied_menu_tokens :: "(menu \<times> (int \<times> trans_token) list) list"
  langchange_callback :: "callback list"
  calls :: "gui_call list"

section \<open>Resolution: __str__\<close>

text \<open>
  The last step of \<open>__str__\<close>: \<open>format_map\<close> when the parameters are not empty. The
  parameters come with \<open>str\<close> of each value.
\<close>

definition apply_parameters :: "string \<Rightarrow> rendered \<Rightarrow> py_error + string" where
  "apply_parameters result rd = (if rd \<noteq> [] then format_map result rd else Inr result)"

text \<open>\<open>TRANSLATIONS[namespace][token]\<close>, with the token itself on \<open>KeyError\<close>.\<close>

definition lookup_translation :: "state \<Rightarrow> string \<Rightarrow> string \<Rightarrow> string" where
  "lookup_translation st ns tok =
     (case TRANSLATIONS st ns of
        None \<Rightarrow> tok
      | Some table \<Rightarrow> (case table tok of None \<Rightarrow> tok | Some v \<Rightarrow> v))"

text \<open>The body of \<open>TransToken.__str__\<close>, given \<open>str\<close> of each parameter value.\<close>

definition TransToken_body :: "state \<Rightarrow> string \<Rightarrow> string \<Rightarrow> rendered \<Rightarrow> py_error + string" where
  "TransToken_body st ns tok rd =
     (if ns = NS_UNTRANSLATED \<or> tok = [] then apply_parameters tok rd
      else if is_dummy (TRANSLATOR st) then Inr (replicate (length tok) CHR ''#'')
      else if ns = NS_UI then apply_parameters (gettext (TRANSLATOR st) tok) rd
      else apply_parameters (lookup_translation st ns tok) rd)"

text \<open>
  The body of \<open>PluralTransToken.__str__\<close>, given \<open>parameters.get('n')\<close> and \<open>str\<close> of each
  parameter value. The \<open>except KeyError\<close> covers the lookup of \<open>'n'\<close>; \<open>int\<close> on the
  values modelled here raises \<open>ValueError\<close> or \<open>TypeError\<close>, which pass through.
\<close>

definition PluralTransToken_body ::
  "state \<Rightarrow> string \<Rightarrow> string \<Rightarrow> pyval option \<Rightarrow> rendered \<Rightarrow> string \<Rightarrow> py_error + string" where
  \<open>PluralTransToken_body st ns tok n_value rd token_plural =
     (case n_value of
        None \<Rightarrow> Inl (ValueError ''Plural token requires "n" parameter!'')
      | Some v \<Rightarrow>
          (case py_int v of
             Inl e \<Rightarrow> Inl e
           | Inr n \<Rightarrow>
               if ns = NS_UNTRANSLATED \<or> tok = [] then
                 apply_parameters (if n = 1 then tok else token_plural) rd
               else if is_dummy (TRANSLATOR st) then Inr (replicate (length tok) CHR ''#'')
               else if ns = NS_UI then
                 apply_parameters (ngettext (TRANSLATOR st) tok token_plural n) rd
               else Inl (ValueError (''Namespace "'' @ ns @ ''" is not allowed.''))))\<close>

text \<open>
  \<open>str(token)\<close>, dispatching on the class, and \<open>str(value)\<close> for a parameter value;
  \<open>render\<close> puts \<open>str(value)\<close> in the place of each value of a dictionary. The third
  equation is \<open>JoinTransToken.__str__\<close>: the separator first, then the children from
  left to right, sorted when \<open>sort\<close> is set, then joined.
\<close>

fun token_str :: "state \<Rightarrow> trans_token \<Rightarrow> py_error + string"
  and value_str :: "state \<Rightarrow> pyval \<Rightarrow> py_error + string"
  and render :: "state \<Rightarrow> params \<Rightarrow> rendered" where
  "token_str st (TransToken ns tok ps) = TransToken_body st ns tok (render st ps)"
| "token_str st (PluralTransToken ns tok ps pl) =
     PluralTransToken_body st ns tok (map_of ps ''n'') (render st ps) pl"
| "token_str st (JoinTransToken ns tok ps ch srt) =
     (case TransToken_body st ns tok (render st ps) of
        Inl e \<Rightarrow> Inl e
      | Inr sep \<Rightarrow>
          (case collect (map (token_str st) ch) of
             Inl e \<Rightarrow> Inl e
           | Inr items \<Rightarrow> Inr (str_join sep (if srt then sort items else items))))"
| "value_str st (PyStr s) = Inr s"
| "value_str st (PyInt i) = Inr (int_str i)"
| "value_str st PyNone = Inr ''None''"
| "value_str st (PyToken t) = token_str st t"
| "render st [] = []"
| "render st ((k, v) # ps) = (k, value_str st v) # render st ps"

text \<open>
  \<open>TransToken.__str__\<close> and \<open>PluralTransToken.__str__\<close> on the fields
  (\<open>JoinTransToken.__str__\<close> calls the first on its own fields through \<open>super()\<close>).
\<close>

definition TransToken_str :: "state \<Rightarrow> string \<Rightarrow> string \<Rightarrow> params \<Rightarrow> py_error + string" where
  "TransToken_str st ns tok ps = TransToken_body st ns tok (render st ps)"

definition PluralTransToken_str ::
  "state \<Rightarrow> string \<Rightarrow> string \<Rightarrow> params \<Rightarrow> string \<Rightarrow> py_error + string" where
  "PluralTransToken_str st ns tok ps token_plural =
     PluralTransToken_body st ns tok (map_of ps ''n'') (render st ps) token_plural"

text \<open>No value of the dictionary is a token.\<close>

definition plain_values :: "params \<Rightarrow> bool" where
  "plain_values ps = list_all (\<lambda>(k, v). case v of PyToken t \<Rightarrow> False | _ \<Rightarrow> True) ps"

section \<open>Equality and hashing\<close>

text \<open>
  \<open>__eq__\<close> of the three classes. Each tests \<open>type(other) is\<close> its own class and returns
  \<open>NotImplemented\<close> otherwise, so that two tokens of different classes compare unequal.
  \<open>children_eq\<close> is \<open>list.__eq__\<close> on the children. \<open>dict.__eq__\<close>, named \<open>dict_eq\<close>
  below, is: the same number of entries, and (\<open>items_eq\<close>) every key of the first has an
  equal value in the second; the order of insertion plays no part. \<open>value_eq\<close> is \<open>==\<close> on two parameter values, which
  for two tokens is their \<open>__eq__\<close>.
\<close>

fun token_eq :: "trans_token \<Rightarrow> trans_token \<Rightarrow> bool"
  and children_eq :: "trans_token list \<Rightarrow> trans_token list \<Rightarrow> bool"
  and value_eq :: "pyval \<Rightarrow> pyval \<Rightarrow> bool"
  and items_eq :: "params \<Rightarrow> params \<Rightarrow> bool" where
  "token_eq (TransToken ns tok ps) other =
     (case other of
        TransToken ns' tok' ps' \<Rightarrow>
          ns = ns' \<and> tok = tok' \<and> length ps = length ps' \<and> items_eq ps ps'
      | _ \<Rightarrow> False)"
| "token_eq (PluralTransToken ns tok ps pl) other =
     (case other of
        PluralTransToken ns' tok' ps' pl' \<Rightarrow>
          ns = ns' \<and> tok = tok' \<and> pl = pl' \<and> length ps = length ps' \<and> items_eq ps ps'
      | _ \<Rightarrow> False)"
| "token_eq (JoinTransToken ns tok ps ch srt) other =
     (case other of
        JoinTransToken ns' tok' ps' ch' srt' \<Rightarrow> ns = ns' \<and> tok = tok' \<and> children_eq ch ch'
      | _ \<Rightarrow> False)"
| "children_eq [] ys = (ys = [])"
| "children_eq (x # xs) ys =
     (case ys of [] \<Rightarrow> False | y # ys' \<Rightarrow> token_eq x y \<and> children_eq xs ys')"
| "value_eq (PyStr s) w = (case w of PyStr s' \<Rightarrow> s = s' | _ \<Rightarrow> False)"
| "value_eq (PyInt i) w = (case w of PyInt i' \<Rightarrow> i = i' | _ \<Rightarrow> False)"
| "value_eq PyNone w = (case w of PyNone \<Rightarrow> True | _ \<Rightarrow> False)"
| "value_eq (PyToken t) w = (case w of PyToken u \<Rightarrow> token_eq t u | _ \<Rightarrow> False)"
| "items_eq [] qs = True"
| "items_eq ((k, v) # ps) qs =
     ((case map_of qs k of None \<Rightarrow> False | Some w \<Rightarrow> value_eq v w) \<and> items_eq ps qs)"

definition dict_eq :: "params \<Rightarrow> params \<Rightarrow> bool" where
  "dict_eq ps qs = (length ps = length qs \<and> items_eq ps qs)"

text \<open>
  Equality as the specification words it: the same variant, namespace, key or keys and
  parameters, and for Join tokens the same children in sequence.
\<close>

fun spec_eq :: "trans_token \<Rightarrow> trans_token \<Rightarrow> bool"
  and spec_children_eq :: "trans_token list \<Rightarrow> trans_token list \<Rightarrow> bool"
  and spec_value_eq :: "pyval \<Rightarrow> pyval \<Rightarrow> bool"
  and spec_items_eq :: "params \<Rightarrow> params \<Rightarrow> bool" where
  "spec_eq (TransToken ns tok ps) other =
     (case other of
        TransToken ns' tok' ps' \<Rightarrow> ns = ns' \<and> tok = tok' \<and> length ps = length ps' \<and> spec_items_eq ps ps'
      | _ \<Rightarrow> False)"
| "spec_eq (PluralTransToken ns tok ps pl) other =
     (case other of
        PluralTransToken ns' tok' ps' pl' \<Rightarrow>
          ns = ns' \<and> tok = tok' \<and> pl = pl' \<and> length ps = length ps' \<and> spec_items_eq ps ps'
      | _ \<Rightarrow> False)"
| "spec_eq (JoinTransToken ns tok ps ch srt) other =
     (case other of
        JoinTransToken ns' tok' ps' ch' srt' \<Rightarrow>
          ns = ns' \<and> tok = tok' \<and> length ps = length ps' \<and> spec_items_eq ps ps' \<and> spec_children_eq ch ch'
      | _ \<Rightarrow> False)"
| "spec_children_eq [] ys = (ys = [])"
| "spec_children_eq (x # xs) ys =
     (case ys of [] \<Rightarrow> False | y # ys' \<Rightarrow> spec_eq x y \<and> spec_children_eq xs ys')"
| "spec_value_eq (PyStr s) w = (case w of PyStr s' \<Rightarrow> s = s' | _ \<Rightarrow> False)"
| "spec_value_eq (PyInt i) w = (case w of PyInt i' \<Rightarrow> i = i' | _ \<Rightarrow> False)"
| "spec_value_eq PyNone w = (case w of PyNone \<Rightarrow> True | _ \<Rightarrow> False)"
| "spec_value_eq (PyToken t) w = (case w of PyToken u \<Rightarrow> spec_eq t u | _ \<Rightarrow> False)"
| "spec_items_eq [] qs = True"
| "spec_items_eq ((k, v) # ps) qs =
     ((case map_of qs k of None \<Rightarrow> False | Some w \<Rightarrow> spec_value_eq v w) \<and> spec_items_eq ps qs)"

text \<open>
  \<open>__hash__\<close>. The built-in \<open>hash\<close> is taken as given: on strings, integers and \<open>None\<close>,
  on a tuple (a function of the hashes of its elements, in order), and on a frozenset (a
  function of the hashes of its elements, without order). The elements of
  \<open>frozenset(parameters.items())\<close> are the pairs of a key and its value.
\<close>

record py_hash =
  hash_str :: "string \<Rightarrow> int"
  hash_int :: "int \<Rightarrow> int"
  hash_none :: int
  hash_tuple :: "int list \<Rightarrow> int"
  hash_frozenset :: "int multiset \<Rightarrow> int"

fun token_hash :: "py_hash \<Rightarrow> trans_token \<Rightarrow> int"
  and value_hash :: "py_hash \<Rightarrow> pyval \<Rightarrow> int"
  and items_hash :: "py_hash \<Rightarrow> params \<Rightarrow> int multiset" where
  "token_hash h (TransToken ns tok ps) =
     hash_tuple h [hash_str h ns, hash_str h tok, hash_frozenset h (items_hash h ps)]"
| "token_hash h (PluralTransToken ns tok ps pl) =
     hash_tuple h [hash_str h ns, hash_str h tok, hash_str h pl,
                   hash_frozenset h (items_hash h ps)]"
| "token_hash h (JoinTransToken ns tok ps ch srt) =
     hash_tuple h (hash_str h ns # hash_str h tok # map (token_hash h) ch)"
| "value_hash h (PyStr s) = hash_str h s"
| "value_hash h (PyInt i) = hash_int h i"
| "value_hash h PyNone = hash_none h"
| "value_hash h (PyToken t) = token_hash h t"
| "items_hash h [] = {#}"
| "items_hash h ((k, v) # ps) =
     add_mset (hash_tuple h [hash_str h k, value_hash h v]) (items_hash h ps)"

text \<open>
  Every parameter dictionary in a token has distinct keys: its own, those of its
  children, and those of the tokens among its parameter values.
\<close>

fun token_wf :: "trans_token \<Rightarrow> bool"
  and value_wf :: "pyval \<Rightarrow> bool"
  and items_wf :: "params \<Rightarrow> bool" where
  "token_wf (TransToken ns tok ps) = (dict_wf ps \<and> items_wf ps)"
| "token_wf (PluralTransToken ns tok ps pl) = (dict_wf ps \<and> items_wf ps)"
| "token_wf (JoinTransToken ns tok ps ch srt) = (dict_wf ps \<and> items_wf ps \<and> list_all token_wf ch)"
| "value_wf (PyToken t) = token_wf t"
| "value_wf v = True"
| "items_wf [] = True"
| "items_wf ((k, v) # ps) = (value_wf v \<and> items_wf ps)"

section \<open>load_basemodui\<close>

text \<open>
  The file system is a map from a path to the lines of the file, decoded;
  \<open>None\<close> is \<open>FileNotFoundError\<close>. One line of the file: it is used when splitting it at
  the double quote gives five parts and the key has the editor's prefix.
\<close>

definition basemod_line :: "(string \<rightharpoonup> string) \<Rightarrow> string \<Rightarrow> (string \<rightharpoonup> string)" where
  "basemod_line trans_data line =
     (case split_on (CHR 0x22) line of
        [u1, key, u2, val, u3] \<Rightarrow>
          if startswith key PETI_KEY_PREFIX
          then trans_data(key \<mapsto> replace_escaped_apostrophe val)
          else trans_data
      | _ \<Rightarrow> trans_data)"

definition load_basemodui :: "(string \<rightharpoonup> string list) \<Rightarrow> string \<Rightarrow> state \<Rightarrow> state" where
  "load_basemodui fs basemod_loc st =
     (if TRANSLATIONS st NS_GAME \<noteq> None then st
      else (case fs basemod_loc of
              None \<Rightarrow> st
            | Some lines \<Rightarrow>
                st\<lparr>TRANSLATIONS :=
                     (TRANSLATIONS st)(NS_GAME \<mapsto> foldl basemod_line Map.empty lines)\<rparr>))"

section \<open>set_language\<close>

text \<open>
  What \<open>set_language\<close> reads from outside the module. \<open>expand_lang\<close> is
  \<open>gettext._expand_lang\<close>. \<open>open_mo\<close> is \<open>open\<close> of a file of the \<open>i18n\<close> folder followed
  by \<open>GNUTranslations(file)\<close>: the compiled catalog, \<open>None\<close> for \<open>FileNotFoundError\<close>, or
  any other exception, which nothing catches. \<open>tkinter_font\<close> is whether \<open>tkinter.font\<close>
  can be imported. \<open>callback_run\<close> is what a registered function does when it is
  called: it may change the state, the list of registered functions included, and it
  may raise. Calls of \<open>LOGGER\<close> are left out.
\<close>

record environment =
  expand_lang :: "string \<Rightarrow> string list"
  open_mo :: "string \<Rightarrow> py_error + catalog option"
  tkinter_font :: bool
  callback_run :: "callback \<Rightarrow> state \<Rightarrow> state \<times> py_error option"

text \<open>The name of the file: \<open>(lang + '.mo').format(lang)\<close>.\<close>

definition mo_name :: "string \<Rightarrow> py_error + string" where
  "mo_name lang = str_format (lang @ ''.mo'') [lang]"

text \<open>The loop over the expanded codes: the first catalog found.\<close>

fun find_catalog :: "environment \<Rightarrow> string list \<Rightarrow> py_error + catalog option" where
  "find_catalog env [] = Inr None"
| "find_catalog env (lang # langs) =
     (case mo_name lang of
        Inl e \<Rightarrow> Inl e
      | Inr name \<Rightarrow>
          (case open_mo env name of
             Inl e \<Rightarrow> Inl e
           | Inr None \<Rightarrow> find_catalog env langs
           | Inr (Some cat) \<Rightarrow> Inr (Some cat)))"

text \<open>
  The loop with its \<open>else\<close>: the value assigned to \<open>_TRANSLATOR\<close>. When no catalog is
  found, the code is not \<open>dummy\<close> and \<open>en\<close> is not among the expanded codes, the source
  calls \<open>logger.warning\<close>, where \<open>logger\<close> is the module \<open>srctools.logger\<close> and not the
  logger \<open>LOGGER\<close>; the module has no such function, and the call raises before
  \<open>_TRANSLATOR\<close> is assigned.
\<close>

definition select_translator :: "environment \<Rightarrow> string \<Rightarrow> py_error + translator" where
  "select_translator env lang_code =
     (case find_catalog env (expand_lang env lang_code) of
        Inl e \<Rightarrow> Inl e
      | Inr (Some cat) \<Rightarrow> Inr (GNUTranslations cat)
      | Inr None \<Rightarrow>
          if lang_code = ''dummy'' then Inr DummyTranslations
          else if ''en'' \<notin> set (expand_lang env lang_code) then
            Inl (AttributeError (''module 'srctools.logger' has no attribute 'warning'' @ [CHR 0x27]))
          else Inr NullTranslations)"

text \<open>
  The loops over the bound widgets and the menus. A token whose \<open>str\<close> raises ends the
  call there: the result is the state reached and the exception.
\<close>

fun reload_widgets :: "state \<Rightarrow> (widget \<times> trans_token) list \<Rightarrow> state \<times> py_error option" where
  "reload_widgets st [] = (st, None)"
| "reload_widgets st ((text_widget, tok) # rest) =
     (case token_str st tok of
        Inl e \<Rightarrow> (st, Some e)
      | Inr s \<Rightarrow> reload_widgets (st\<lparr>calls := calls st @ [SetText text_widget s]\<rparr>) rest)"

fun reload_menu :: "state \<Rightarrow> menu \<Rightarrow> (int \<times> trans_token) list \<Rightarrow> state \<times> py_error option" where
  "reload_menu st m [] = (st, None)"
| "reload_menu st m ((index, tok) # rest) =
     (case token_str st tok of
        Inl e \<Rightarrow> (st, Some e)
      | Inr s \<Rightarrow> reload_menu (st\<lparr>calls := calls st @ [EntryConfigure m index s]\<rparr>) m rest)"

fun reload_menus ::
  "state \<Rightarrow> (menu \<times> (int \<times> trans_token) list) list \<Rightarrow> state \<times> py_error option" where
  "reload_menus st [] = (st, None)"
| "reload_menus st ((m, menu_map) # rest) =
     (case reload_menu st m menu_map of
        (st', Some e) \<Rightarrow> (st', Some e)
      | (st', None) \<Rightarrow> reload_menus st' rest)"

text \<open>
  \<open>for func in _langchange_callback: func()\<close>. The loop reads the list as it is at each
  step, by position, so that a function registered by a callback is called too, and a
  callback that raises ends the loop. The loop need not end: \<open>None\<close> is the call that
  does not return.
\<close>

partial_function (option) run_callbacks ::
  "environment \<Rightarrow> nat \<Rightarrow> state \<Rightarrow> (state \<times> py_error option) option" where
  "run_callbacks env i st =
     (if i < length (langchange_callback st) then
        (case callback_run env (langchange_callback st ! i)
                (st\<lparr>calls := calls st @ [Call (langchange_callback st ! i)]\<rparr>) of
           (st', Some e) \<Rightarrow> Some (st', Some e)
         | (st', None) \<Rightarrow> run_callbacks env (Suc i) st')
      else Some (st, None))"

text \<open>The flags set for the expanded codes.\<close>

definition set_flags :: "environment \<Rightarrow> string \<Rightarrow> state \<Rightarrow> state" where
  "set_flags env lang_code st =
     st\<lparr>PROP_FLAGS_DEFAULT :=
          fold (\<lambda>lang flags. flags(''lang_'' @ lang \<mapsto> True)) (expand_lang env lang_code)
            (PROP_FLAGS_DEFAULT st)\<rparr>"

text \<open>The state after the assignment of \<open>_TRANSLATOR\<close>.\<close>

definition install_translator :: "environment \<Rightarrow> string \<Rightarrow> translator \<Rightarrow> state \<Rightarrow> state" where
  "install_translator env lang_code tr st = (set_flags env lang_code st)\<lparr>TRANSLATOR := tr\<rparr>"

text \<open>
  \<open>set_language\<close>. When the catalog asks for the sans-serif font and \<open>tkinter.font\<close>
  cannot be imported, the function returns there. When it can be imported, the loop over
  the font names follows, whose body is not in the source: the result is marked
  \<open>Unmodelled\<close>.
\<close>

definition set_language ::
  "environment \<Rightarrow> string \<Rightarrow> state \<Rightarrow> (state \<times> py_error option) option" where
  "set_language env lang_code st =
     (case select_translator env lang_code of
        Inl e \<Rightarrow> Some (set_flags env lang_code st, Some e)
      | Inr tr \<Rightarrow>
          (let st2 = install_translator env lang_code tr st
           in if gettext tr ''__LANG_USE_SANS_SERIF__'' = ''YES'' then
                (if tkinter_font env then Some (st2, Some (Unmodelled ''font_names''))
                 else Some (st2, None))
              else (case reload_widgets st2 (applied_tokens st2) of
                      (st3, Some e) \<Rightarrow> Some (st3, Some e)
                    | (st3, None) \<Rightarrow>
                        (case reload_menus st3 (applied_menu_tokens st3) of
                           (st4, Some e) \<Rightarrow> Some (st4, Some e)
                         | (st4, None) \<Rightarrow> run_callbacks env 0 st4))))"






section \<open>States used in the examples\<close>

text \<open>The module as imported: the passthrough translator, nothing loaded, nothing bound.\<close>

definition initial_state :: state where
  "initial_state =
     \<lparr>TRANSLATOR = NullTranslations, TRANSLATIONS = Map.empty, PROP_FLAGS_DEFAULT = Map.empty,
      applied_tokens = [], applied_menu_tokens = [], langchange_callback = [], calls = []\<rparr>"

definition dummy_state :: state where
  "dummy_state = initial_state\<lparr>TRANSLATOR := DummyTranslations\<rparr>"

text \<open>
  Two compiled catalogs: a French one, whose translation of \<open>Hello {name}\<close> names a
  placeholder the callers do not supply, and one that asks for the sans-serif font.
\<close>

definition french :: catalog where
  "french =
     \<lparr>cat_gettext = (\<lambda>m. if m = ''Hello'' then ''Bonjour''
                          else if m = ''Hello {name}'' then ''Bonjour {nom}'' else m),
      cat_ngettext = (\<lambda>m1 m2 n. if n = 1 then m1 else m2)\<rparr>"

definition japanese :: catalog where
  "japanese =
     \<lparr>cat_gettext = (\<lambda>m. if m = ''__LANG_USE_SANS_SERIF__'' then ''YES'' else m),
      cat_ngettext = (\<lambda>m1 m2 n. m2)\<rparr>"

text \<open>
  An environment with the two catalogs as \<open>fr.mo\<close> and \<open>ja.mo\<close>, and two callbacks:
  callback 10 sets the title of window 3 to a token, as \<open>apply_title\<close> registers it;
  the others do nothing to the module.
\<close>

definition example_env :: environment where
  "example_env =
     \<lparr>expand_lang = (\<lambda>c. if c = ''fr'' then [''fr_FR.ISO8859-1'', ''fr_FR'', ''fr.ISO8859-1'', ''fr'']
                          else [c]),
      open_mo = (\<lambda>name. if name = ''fr.mo'' then Inr (Some french)
                         else if name = ''ja.mo'' then Inr (Some japanese) else Inr None),
      tkinter_font = True,
      callback_run = (\<lambda>c s. if c = 10
                              then (case token_str s (ui ''Hello'' []) of
                                      Inl e \<Rightarrow> (s, Some e)
                                    | Inr title \<Rightarrow> (s\<lparr>calls := calls s @ [SetTitle 3 title]\<rparr>, None))
                              else (s, None))\<rparr>"

text \<open>One label, one menu with two entries, two callbacks.\<close>

definition bound_state :: state where
  "bound_state =
     initial_state\<lparr>applied_tokens := [(1, ui ''Hello'' [])],
                   applied_menu_tokens := [(2, [(0, ui ''Hello'' []), (1, untranslated ''BEE2'')])],
                   langchange_callback := [10, 11]\<rparr>"


text \<open>A file system with one file, of two lines.\<close>

definition example_fs :: "string \<rightharpoonup> string list" where
  \<open>example_fs = [''basemodui.txt'' \<mapsto> [''"PORTAL2_PuzzleEditor_Cube" "Cube"'', ''}'']]\<close>

section \<open>Facts about the built-ins and the constants\<close>

lemma format_map_empty: "format_map [] ps = Inr []"
  by (simp add: format_map_def)

lemma apply_parameters_empty: "apply_parameters [] ps = Inr []"
  by (simp add: apply_parameters_def format_map_empty)

lemma namespaces_distinct:
  "NS_UI \<noteq> NS_UNTRANSLATED" "NS_GAME \<noteq> NS_UNTRANSLATED" "NS_UI \<noteq> NS_GAME"
  by (simp_all add: NS_UI_def NS_UNTRANSLATED_def NS_GAME_def)

lemma py_int_one: "py_int (PyStr ''1'') = Inr 1"
  by (simp add: py_int_def int_strip_def int_space_def code_point_def int_literal_def
      int_unsigned_def is_digit_def digit_val_def)

lemma py_int_error_not_plural:
  \<open>py_int v = Inl e \<Longrightarrow> e \<noteq> ValueError ''Plural token requires "n" parameter!''\<close>
  by (auto simp: py_int_def int_type_error_def split: pyval.splits option.splits)


section \<open>Resolution of plain tokens\<close>

text \<open>
  Claim C1, as the code has it. In dummy mode, resolving a plain token whose key is not
  empty and whose namespace is not the untranslated one gives a string of the length of
  the key in which every character is \<open>#\<close>, spaces and punctuation included; the
  parameters are not substituted, whatever they are.
\<close>

theorem C1_dummy_mode_hashes:
  assumes "is_dummy (TRANSLATOR st)" and "ns \<noteq> NS_UNTRANSLATED" and "tok \<noteq> []"
  shows "token_str st (TransToken ns tok ps) = Inr (replicate (length tok) CHR ''#'')"
  using assms by (simp add: TransToken_body_def)

text \<open>The theorem of claim C1 at \<open>Token.ui("Hi {name}", name="Bob")\<close>.\<close>

theorem C1_dummy_mode_hashes_witness:
  "is_dummy (TRANSLATOR dummy_state) \<and> NS_UI \<noteq> NS_UNTRANSLATED \<and> ''Hi {name}'' \<noteq> [] \<and>
   token_str dummy_state (TransToken NS_UI ''Hi {name}'' [(''name'', PyStr ''Bob'')]) = Inr ''#########''"
proof -
  have d: "is_dummy (TRANSLATOR dummy_state)"
    by (simp add: dummy_state_def initial_state_def)
  have n: "NS_UI \<noteq> NS_UNTRANSLATED"
    by (simp add: NS_UI_def NS_UNTRANSLATED_def)
  have k: "''Hi {name}'' \<noteq> []" by simp
  from C1_dummy_mode_hashes [OF d n k, of "[(''name'', PyStr ''Bob'')]"] d n k
  show ?thesis by (simp add: numeral_eq_Suc)
qed

text \<open>
  Claim C1 as stated fails: in dummy mode \<open>str(Token.ui("Hi {name}", name="Bob"))\<close> is
  nine \<open>#\<close>, which is neither \<open>## Bob\<close>, nor the dummy substitution of the key (which
  keeps the space), nor that substitution with the parameters applied.
\<close>

theorem C1_counterexample:
  "token_str dummy_state (ui ''Hi {name}'' [(''name'', PyStr ''Bob'')]) = Inr ''#########'' \<and>
   token_str dummy_state (ui ''Hi {name}'' [(''name'', PyStr ''Bob'')]) \<noteq> Inr ''## Bob'' \<and>
   token_str dummy_state (ui ''Hi {name}'' [(''name'', PyStr ''Bob'')])
     \<noteq> Inr (dummy_gettext ''Hi {name}'') \<and>
   token_str dummy_state (ui ''Hi {name}'' [(''name'', PyStr ''Bob'')])
     \<noteq> format_map (dummy_gettext ''Hi {name}'') (render dummy_state [(''name'', PyStr ''Bob'')])"
  by (simp add: ui_def TransToken_body_def dummy_state_def initial_state_def NS_UI_def
      NS_UNTRANSLATED_def numeral_eq_Suc dummy_gettext_def isalnum_char_def code_point_def
      format_map_def emit_def)

text \<open>Rendering keeps the keys, and so the emptiness, of a dictionary.\<close>

lemma render_Nil_iff: "render st ps = [] \<longleftrightarrow> ps = []"
  by (cases ps) auto

text \<open>Parameter values that are not tokens are rendered the same in every state.\<close>

lemma render_plain_values: "plain_values ps \<Longrightarrow> render st ps = render st' ps"
proof (induction ps)
  case Nil
  show ?case by simp
next
  case (Cons p ps)
  obtain k v where p: "p = (k, v)" by (cases p)
  from Cons show ?case
    by (cases v) (simp_all add: p plain_values_def)
qed

text \<open>
  Claim C2, as the code has it. A token of the untranslated namespace with key \<open>s\<close> and
  no parameters resolves to \<open>s\<close> in every state, so under every language and in dummy
  mode. With parameters the result is \<open>format_map\<close> applied to the key itself: the key
  is looked up in no translator and no table. When no parameter value is a token, the
  result is the same in any two states.
\<close>

theorem C2_untranslated_verbatim:
  "token_str st (untranslated s) = Inr s \<and>
   token_str st (TransToken NS_UNTRANSLATED s ps)
     = (if ps = [] then Inr s else format_map s (render st ps)) \<and>
   (plain_values ps \<longrightarrow>
      token_str st (TransToken NS_UNTRANSLATED s ps) = token_str st' (TransToken NS_UNTRANSLATED s ps))"
  using render_plain_values [of ps st st']
  by (auto simp: untranslated_def TransToken_body_def apply_parameters_def render_Nil_iff)

text \<open>The theorem of claim C2 in dummy mode, without and with a parameter.\<close>

theorem C2_untranslated_verbatim_witness:
  "token_str dummy_state (untranslated ''Hi {name}'') = Inr ''Hi {name}'' \<and>
   plain_values [(''name'', PyStr ''Bob'')] \<and>
   token_str dummy_state (TransToken NS_UNTRANSLATED ''Hi {name}'' [(''name'', PyStr ''Bob'')])
     = Inr ''Hi Bob'' \<and>
   token_str initial_state (TransToken NS_UNTRANSLATED ''Hi {name}'' [(''name'', PyStr ''Bob'')])
     = Inr ''Hi Bob''"
proof -
  have p: "plain_values [(''name'', PyStr ''Bob'')]"
    by (simp add: plain_values_def)
  have r: "render dummy_state [(''name'', PyStr ''Bob'')] = [(''name'', Inr ''Bob'')]"
    by simp
  have f: "format_map ''Hi {name}'' [(''name'', Inr ''Bob'')] = Inr ''Hi Bob''"
    by (simp add: format_map_def emit_def field_value_def special_field_def is_digit_def
        code_point_def)
  from C2_untranslated_verbatim
         [of dummy_state "''Hi {name}''" "[(''name'', PyStr ''Bob'')]" initial_state] p r f
  show ?thesis by (simp add: TransToken_body_def apply_parameters_def)
qed

text \<open>
  Claim C2 as stated fails when a parameter value is itself a token:
  \<open>TransToken.untranslated("{msg}").format(msg=TransToken.ui("Hello"))\<close> resolves to
  \<open>Hello\<close> under the passthrough translator and to \<open>#####\<close> in dummy mode, so resolving
  it does consult the active translator.
\<close>

theorem C2_counterexample:
  "token_str initial_state
     (TransToken NS_UNTRANSLATED ''{msg}'' [(''msg'', PyToken (ui ''Hello'' []))]) = Inr ''Hello'' \<and>
   token_str dummy_state
     (TransToken NS_UNTRANSLATED ''{msg}'' [(''msg'', PyToken (ui ''Hello'' []))]) = Inr ''#####''"
  by (simp add: ui_def TransToken_body_def apply_parameters_def initial_state_def dummy_state_def
      NS_UI_def NS_UNTRANSLATED_def format_map_def emit_def field_value_def special_field_def
      is_digit_def code_point_def numeral_eq_Suc)

text \<open>
  Claim C6, as the code has it. A token whose key is empty or only whitespace is falsy;
  a plain token whose key is the empty string resolves to the empty string in every
  state and with any parameters.
\<close>

theorem C6_blank_token:
  "((token t = [] \<or> isspace (token t)) \<longrightarrow> \<not> token_bool t) \<and>
   token_str st (TransToken ns [] ps) = Inr []"
  by (simp add: token_bool_def TransToken_body_def apply_parameters_empty)

text \<open>The theorem of claim C6 at a key of two spaces, and at an empty key in dummy mode.\<close>

theorem C6_blank_token_witness:
  "(token (ui ''  '' []) = [] \<or> isspace (token (ui ''  '' []))) \<and> \<not> token_bool (ui ''  '' []) \<and>
   token_str dummy_state (TransToken NS_UI [] [(''name'', PyStr ''Bob'')]) = Inr []"
  using C6_blank_token [of "ui ''  '' []" dummy_state NS_UI "[(''name'', PyStr ''Bob'')]"]
  by (simp add: ui_def isspace_def isspace_char_def code_point_def)

text \<open>
  Claim C6 as stated fails: the token whose key is one space is falsy, yet it resolves to
  the space under the passthrough translator and to \<open>#\<close> in dummy mode; and a Join token
  with an empty key resolves to its children put together.
\<close>

theorem C6_counterexample:
  "isspace '' '' \<and> \<not> token_bool (ui '' '' []) \<and>
   token_str initial_state (ui '' '' []) = Inr '' '' \<and>
   token_str dummy_state (ui '' '' []) = Inr ''#'' \<and>
   token_str initial_state (JoinTransToken NS_UI [] [] [untranslated ''a'', untranslated ''b''] False)
     = Inr ''ab''"
  by (simp add: ui_def untranslated_def token_bool_def isspace_def isspace_char_def code_point_def
      TransToken_body_def apply_parameters_def initial_state_def dummy_state_def
      NS_UI_def NS_UNTRANSLATED_def)

section \<open>Resolution of plural tokens\<close>

text \<open>
  Claim C4. A plural token whose parameters have no key \<open>n\<close> raises
  \<open>ValueError('Plural token requires "n" parameter!')\<close>, in every state and for every
  namespace, key and plural key. \<open>token_str\<close> returns a result and no state: \<open>__str__\<close>
  assigns no global.
\<close>

theorem C4_plural_requires_n:
  assumes "''n'' \<notin> set (map fst ps)"
  shows \<open>token_str st (PluralTransToken ns tok ps pl)
           = Inl (ValueError ''Plural token requires "n" parameter!'')\<close>
proof -
  from assms have "map_of ps ''n'' = None"
    by (simp add: map_of_eq_None_iff)
  then show ?thesis
    by (simp add: PluralTransToken_body_def)
qed

text \<open>The theorem of claim C4 in dummy mode, for a package namespace and an empty key.\<close>

theorem C4_plural_requires_n_witness:
  \<open>''n'' \<notin> set (map fst [(''count'', PyInt 2)]) \<and>
   token_str dummy_state (PluralTransToken ''pkg'' [] [(''count'', PyInt 2)] ''items'')
     = Inl (ValueError ''Plural token requires "n" parameter!'')\<close>
proof -
  have h: "''n'' \<notin> set (map fst [(''count'', PyInt 2)])" by simp
  from C4_plural_requires_n [OF h, of dummy_state "''pkg''" "[]" "''items''"] h
  show ?thesis by simp
qed

text \<open>
  Claim C5, as the code has it. A plural token whose namespace is neither the UI nor the
  untranslated one, whose key is not empty and whose \<open>n\<close> converts to an integer raises
  \<open>ValueError('Namespace "..." is not allowed.')\<close> whenever the translator is not the
  dummy one.
\<close>

theorem C5_plural_namespace_not_allowed:
  assumes "ns \<noteq> NS_UI" and "ns \<noteq> NS_UNTRANSLATED" and "tok \<noteq> []"
    and "map_of ps ''n'' = Some v" and "py_int v = Inr n"
    and "\<not> is_dummy (TRANSLATOR st)"
  shows \<open>token_str st (PluralTransToken ns tok ps pl)
           = Inl (ValueError (''Namespace "'' @ ns @ ''" is not allowed.''))\<close>
  using assms by (simp add: PluralTransToken_body_def)

text \<open>The theorem of claim C5 for the namespace \<open>pkg\<close> under the passthrough translator.\<close>

theorem C5_plural_namespace_not_allowed_witness:
  \<open>''pkg'' \<noteq> NS_UI \<and> ''pkg'' \<noteq> NS_UNTRANSLATED \<and> ''item'' \<noteq> [] \<and>
   map_of [(''n'', PyStr ''1'')] ''n'' = Some (PyStr ''1'') \<and> py_int (PyStr ''1'') = Inr 1 \<and>
   \<not> is_dummy (TRANSLATOR initial_state) \<and>
   token_str initial_state (PluralTransToken ''pkg'' ''item'' [(''n'', PyStr ''1'')] ''items'')
     = Inl (ValueError ''Namespace "pkg" is not allowed.'')\<close>
proof -
  have a: "''pkg'' \<noteq> NS_UI" and b: "''pkg'' \<noteq> NS_UNTRANSLATED"
    by (simp_all add: NS_UI_def NS_UNTRANSLATED_def)
  have c: "''item'' \<noteq> []" by simp
  have d: "map_of [(''n'', PyStr ''1'')] ''n'' = Some (PyStr ''1'')" by simp
  have e: "\<not> is_dummy (TRANSLATOR initial_state)" by (simp add: initial_state_def)
  from C5_plural_namespace_not_allowed [OF a b c d py_int_one e, of "''items''"] a b c d e py_int_one
  show ?thesis by simp
qed

text \<open>
  Claim C5 as stated fails: with \<open>n\<close> supplied, a plural token of the namespace \<open>pkg\<close>
  resolves to \<open>####\<close> in dummy mode; with an empty key it resolves to its plural key; and
  with an \<open>n\<close> that is not a number the error is that of the conversion.
\<close>

theorem C5_counterexample:
  \<open>token_str dummy_state (PluralTransToken ''pkg'' ''item'' [(''n'', PyStr ''1'')] ''items'')
     = Inr ''####'' \<and>
   token_str initial_state (PluralTransToken ''pkg'' [] [(''n'', PyStr ''2'')] ''items'')
     = Inr ''items'' \<and>
   token_str initial_state (PluralTransToken ''pkg'' ''item'' [(''n'', PyStr ''one'')] ''items'')
     = Inl (ValueError (''invalid literal for int() with base 10: '' @ [CHR 0x27] @ ''one'' @ [CHR 0x27]))\<close>
  by (simp add: PluralTransToken_body_def dummy_state_def initial_state_def NS_UNTRANSLATED_def
      NS_UI_def py_int_def int_strip_def int_space_def code_point_def int_literal_def
      int_unsigned_def is_digit_def digit_val_def numeral_eq_Suc apply_parameters_def
      format_map_def emit_def)

text \<open>
  Claim C10. When \<open>n\<close> is the string \<open>1\<close> it is read as the number 1 and the singular
  form is taken: the key itself in the untranslated namespace and under the passthrough
  translator, and the catalog's form for 1 under a compiled catalog. When \<open>n\<close> is present
  and \<open>int\<close> raises on it, the token raises that same exception, which is not the one for
  a missing \<open>n\<close>.
\<close>

theorem C10_plural_int_conversion:
  \<open>(map_of ps ''n'' = Some (PyStr ''1'') \<longrightarrow>
      token_str st (PluralTransToken NS_UNTRANSLATED tok ps pl) = format_map tok (render st ps) \<and>
      (TRANSLATOR st = NullTranslations \<longrightarrow>
         token_str st (PluralTransToken NS_UI tok ps pl) = format_map tok (render st ps)) \<and>
      (TRANSLATOR st = GNUTranslations cat \<longrightarrow>
         token_str st (PluralTransToken NS_UI tok ps pl) =
           (if tok = [] then format_map tok (render st ps) else format_map (cat_ngettext cat tok pl 1) (render st ps)))) \<and>
   (map_of ps ''n'' = Some v \<and> py_int v = Inl e \<longrightarrow>
      token_str st (PluralTransToken ns tok ps pl) = Inl e \<and>
      e \<noteq> ValueError ''Plural token requires "n" parameter!'')\<close>
proof -
  have ne: "ps \<noteq> []" if "map_of ps ''n'' = Some w" for w
    using that by auto
  show ?thesis
    using py_int_error_not_plural [of v e]
    by (auto simp: PluralTransToken_body_def py_int_one apply_parameters_def namespaces_distinct
        render_Nil_iff dest: ne)
qed

text \<open>
  The theorem of claim C10 at \<open>n="1"\<close>, which gives \<open>1 item\<close>, and at \<open>n="one"\<close>, which
  raises the error of \<open>int\<close>.
\<close>

theorem C10_plural_int_conversion_witness:
  \<open>map_of [(''n'', PyStr ''1'')] ''n'' = Some (PyStr ''1'') \<and>
   token_str initial_state
     (PluralTransToken NS_UI ''{n} item'' [(''n'', PyStr ''1'')] ''{n} items'') = Inr ''1 item'' \<and>
   map_of [(''n'', PyStr ''one'')] ''n'' = Some (PyStr ''one'') \<and>
   py_int (PyStr ''one'') = Inl (ValueError (''invalid literal for int() with base 10: '' @ [CHR 0x27] @ ''one'' @ [CHR 0x27])) \<and>
   token_str initial_state
     (PluralTransToken NS_UI ''{n} item'' [(''n'', PyStr ''one'')] ''{n} items'')
       = Inl (ValueError (''invalid literal for int() with base 10: '' @ [CHR 0x27] @ ''one'' @ [CHR 0x27]))\<close>
proof -
  have a: "TRANSLATOR initial_state = NullTranslations" by (simp add: initial_state_def)
  have b: \<open>py_int (PyStr ''one'') = Inl (ValueError (''invalid literal for int() with base 10: '' @ [CHR 0x27] @ ''one'' @ [CHR 0x27]))\<close>
    by (simp add: py_int_def int_strip_def int_space_def code_point_def int_literal_def
        int_unsigned_def is_digit_def)
  from C10_plural_int_conversion [of "[(''n'', PyStr ''1'')]" initial_state "''{n} item''" "''{n} items''"
      undefined "PyStr ''1''" undefined NS_UI]
    C10_plural_int_conversion [of "[(''n'', PyStr ''one'')]" initial_state "''{n} item''" "''{n} items''"
      undefined "PyStr ''one''" "ValueError (''invalid literal for int() with base 10: '' @ [CHR 0x27] @ ''one'' @ [CHR 0x27])" NS_UI]
    a b
  show ?thesis
    by (simp add: format_map_def emit_def field_value_def special_field_def int_str_def is_digit_def code_point_def)
qed

text \<open>
  The same for any value of \<open>n\<close> on which \<open>int\<close> succeeds: the number read decides
  between the key and the plural key, in the untranslated namespace and under the
  passthrough translator.
\<close>

lemma plural_int_selects_form:
  assumes "map_of ps ''n'' = Some v" and "py_int v = Inr n"
  shows "token_str st (PluralTransToken NS_UNTRANSLATED tok ps pl)
           = format_map (if n = 1 then tok else pl) (render st ps)"
    and "TRANSLATOR st = NullTranslations \<Longrightarrow>
         token_str st (PluralTransToken NS_UI tok ps pl)
           = format_map (if n = 1 then tok else pl) (render st ps)"
proof -
  from assms(1) have "ps \<noteq> []" by auto
  then have ne: "render st ps \<noteq> []" by (simp add: render_Nil_iff)
  from assms ne show "token_str st (PluralTransToken NS_UNTRANSLATED tok ps pl)
           = format_map (if n = 1 then tok else pl) (render st ps)"
    by (simp add: PluralTransToken_body_def apply_parameters_def)
  from assms ne show "token_str st (PluralTransToken NS_UI tok ps pl)
           = format_map (if n = 1 then tok else pl) (render st ps)"
    if "TRANSLATOR st = NullTranslations"
    using that by (simp add: PluralTransToken_body_def apply_parameters_def namespaces_distinct)
qed

section \<open>Resolution of Join tokens\<close>

text \<open>A separator without parameters always resolves.\<close>

lemma separator_without_parameters_resolves:
  "\<exists>sep. TransToken_str st ns tok [] = Inr sep"
  by (simp add: TransToken_str_def TransToken_body_def apply_parameters_def)

text \<open>
  Claim C9, as the code has it. When the separator of a Join token resolves, the token
  with no children resolves to the empty string, and the token with the one child \<open>a\<close>
  gives what \<open>a\<close> gives, its string or its exception, sorted or not.
\<close>

theorem C9_join_zero_or_one_child:
  assumes "TransToken_str st ns tok ps = Inr sep"
  shows "token_str st (JoinTransToken ns tok ps [] srt) = Inr [] \<and>
         token_str st (JoinTransToken ns tok ps [a] srt) = token_str st a"
  using assms by (cases "token_str st a") (simp_all add: TransToken_str_def)

text \<open>The theorem of claim C9 for the separator \<open>", "\<close> and the child \<open>Hello\<close>.\<close>

theorem C9_join_zero_or_one_child_witness:
  "TransToken_str initial_state NS_UI '', '' [] = Inr '', '' \<and>
   token_str initial_state (JoinTransToken NS_UI '', '' [] [] True) = Inr [] \<and>
   token_str initial_state (JoinTransToken NS_UI '', '' [] [ui ''Hello'' []] True) = Inr ''Hello''"
proof -
  have h: "TransToken_str initial_state NS_UI '', '' [] = Inr '', ''"
    by (simp add: TransToken_str_def TransToken_body_def initial_state_def NS_UI_def NS_UNTRANSLATED_def
        apply_parameters_def)
  from C9_join_zero_or_one_child [OF h, of True "ui ''Hello'' []"] h
  show ?thesis
    by (simp add: ui_def TransToken_body_def initial_state_def NS_UI_def NS_UNTRANSLATED_def
        apply_parameters_def)
qed

text \<open>
  Claim C9 as stated fails for a separator that does not resolve:
  \<open>Token.ui("{a}", b="x").join([])\<close> raises \<open>KeyError('a')\<close> under the passthrough
  translator, where the claim has the empty string.
\<close>

theorem C9_counterexample:
  "token_str initial_state (JoinTransToken NS_UI ''{a}'' [(''b'', PyStr ''x'')] [] False)
     = Inl (KeyError ''a'')"
  by (simp add: TransToken_body_def initial_state_def NS_UI_def NS_UNTRANSLATED_def
      apply_parameters_def format_map_def field_value_def special_field_def is_digit_def code_point_def)

section \<open>Equality and hashing of tokens\<close>

text \<open>
  Equal tokens have equal hashes, for all three classes and with tokens among the
  parameter values. The hash of the frozenset of items is a function of the hashes of
  the items, so the steps are: two dictionaries that \<open>dict_eq\<close> accepts have the same
  keys, and under each key values that are equal and so, by induction, of equal hash.
\<close>

lemma items_hash_image:
  "items_hash h ps = image_mset (\<lambda>(k, v). hash_tuple h [hash_str h k, value_hash h v]) (mset ps)"
  by (induction ps) auto

lemma items_eq_lookup:
  "items_eq ps qs \<Longrightarrow> (k, v) \<in> set ps \<Longrightarrow> \<exists>w. map_of qs k = Some w \<and> value_eq v w"
  by (induction ps) (auto split: option.splits)

lemma items_eq_cong:
  "(\<And>k. k \<in> set (map fst ps) \<Longrightarrow> map_of qs k = map_of qs' k) \<Longrightarrow> items_eq ps qs = items_eq ps qs'"
  by (induction ps) auto

lemma mset_remove_key:
  "distinct (map fst qs) \<Longrightarrow> map_of qs k = Some w \<Longrightarrow>
   mset qs = add_mset (k, w) (mset (filter (\<lambda>q. fst q \<noteq> k) qs))"
proof (induction qs)
  case Nil
  then show ?case by simp
next
  case (Cons q qs)
  obtain k' w' where q: "q = (k', w')" by (cases q)
  show ?case
  proof (cases "k' = k")
    case True
    with Cons.prems q have w: "w' = w" and notin: "k \<notin> set (map fst qs)"
      by auto
    from notin have "filter (\<lambda>q. fst q \<noteq> k) qs = qs"
      by (auto simp: filter_id_conv)
    with True w q show ?thesis by simp
  next
    case False
    with Cons q show ?thesis by simp
  qed
qed

lemma map_of_remove_key:
  "k' \<noteq> k \<Longrightarrow> map_of (filter (\<lambda>q. fst q \<noteq> k) qs) k' = map_of qs k'"
  by (induction qs) auto

lemma dict_eq_distinct:
  assumes "distinct (map fst ps)" and "length ps = length qs" and "items_eq ps qs"
  shows "distinct (map fst qs)"
proof -
  have "set (map fst ps) \<subseteq> set (map fst qs)"
  proof
    fix k assume "k \<in> set (map fst ps)"
    then obtain v where "(k, v) \<in> set ps" by auto
    with assms(3) obtain w where "map_of qs k = Some w"
      by (blast dest: items_eq_lookup)
    then show "k \<in> set (map fst qs)"
      by (auto dest: map_of_SomeD intro: rev_image_eqI)
  qed
  then have "card (set (map fst ps)) \<le> card (set (map fst qs))"
    by (simp add: card_mono)
  moreover from assms(1) have "card (set (map fst ps)) = length ps"
    using distinct_card [of "map fst ps"] by simp
  moreover have "card (set (map fst qs)) \<le> length qs"
    using card_length [of "map fst qs"] by simp
  ultimately have "card (set (map fst qs)) = length (map fst qs)"
    using assms(2) by simp
  then show ?thesis by (rule card_distinct)
qed

lemma items_hash_eq:
  assumes "distinct (map fst ps)" and "distinct (map fst qs)"
    and "length ps = length qs" and "items_eq ps qs"
    and "\<And>k v w. (k, v) \<in> set ps \<Longrightarrow> map_of qs k = Some w \<Longrightarrow> value_eq v w
           \<Longrightarrow> value_hash h v = value_hash h w"
  shows "items_hash h ps = items_hash h qs"
  using assms
proof (induction ps arbitrary: qs)
  case Nil
  then show ?case by simp
next
  case (Cons p ps)
  obtain k v where p: "p = (k, v)" by (cases p)
  let ?qs' = "filter (\<lambda>q. fst q \<noteq> k) qs"
  from Cons.prems(4) obtain w where w: "map_of qs k = Some w" and vw: "value_eq v w"
    and rest: "items_eq ps qs"
    by (auto simp: p split: option.splits)
  have split: "mset qs = add_mset (k, w) (mset ?qs')"
    using Cons.prems(2) w by (rule mset_remove_key)
  from arg_cong [OF split, of size] have "length qs = Suc (length ?qs')"
    by (simp flip: mset_filter)
  with Cons.prems(3) have len: "length ps = length ?qs'"
    by simp
  from Cons.prems(1) have k: "k \<notin> set (map fst ps)" and d: "distinct (map fst ps)"
    by (simp_all add: p)
  have same: "map_of ?qs' k' = map_of qs k'" if "k' \<in> set (map fst ps)" for k'
    using that k by (intro map_of_remove_key) auto
  then have rest': "items_eq ps ?qs'"
    using rest items_eq_cong [of ps ?qs' qs] by simp
  have d': "distinct (map fst ?qs')"
    using Cons.prems(2) by (simp add: distinct_map_filter)
  have vh: "value_hash h v' = value_hash h w'"
    if "(k', v') \<in> set ps" "map_of ?qs' k' = Some w'" "value_eq v' w'" for k' v' w'
  proof -
    from that(1) have "k' \<in> set (map fst ps)" by (auto intro: rev_image_eqI)
    with that(2) have "map_of qs k' = Some w'" by (simp add: same)
    with that(1,3) show ?thesis
      using Cons.prems(5) [of k' v' w'] by simp
  qed
  have ih: "items_hash h ps = items_hash h ?qs'"
    using d d' len rest' vh by (rule Cons.IH)
  have "value_hash h v = value_hash h w"
    using Cons.prems(5) [of k v w] w vw by (simp add: p)
  moreover have "items_hash h qs
      = add_mset (hash_tuple h [hash_str h k, value_hash h w]) (items_hash h ?qs')"
    unfolding items_hash_image by (subst split) simp
  ultimately show ?case
    by (simp add: p ih)
qed

lemma token_eq_hash_aux:
  "token_wf t \<Longrightarrow> token_eq t u \<Longrightarrow> token_hash h t = token_hash h u"
  "list_all token_wf ts \<Longrightarrow> children_eq ts us \<Longrightarrow> map (token_hash h) ts = map (token_hash h) us"
  "value_wf v \<Longrightarrow> value_eq v w \<Longrightarrow> value_hash h v = value_hash h w"
  "items_wf ps \<Longrightarrow> (k', v') \<in> set ps \<Longrightarrow> map_of qs k' = Some w' \<Longrightarrow> value_eq v' w'
     \<Longrightarrow> value_hash h v' = value_hash h w'"
proof (induction t u and ts us and v w and ps qs
    arbitrary: and and and k' v' w' rule: token_eq_children_eq_value_eq_items_eq.induct)
  case (1 ns tok ps other)
  show ?case
  proof (cases other)
    case (TransToken ns' tok' ps')
    with "1.prems" have wf: "dict_wf ps" "items_wf ps" and len: "length ps = length ps'"
      and ie: "items_eq ps ps'" and same: "ns = ns'" "tok = tok'"
      by auto
    from wf(1) have d: "distinct (map fst ps)" by (simp add: dict_wf_def)
    have d': "distinct (map fst ps')"
      using d len ie by (rule dict_eq_distinct)
    have "items_hash h ps = items_hash h ps'"
      using d d' len ie "1.IH" [OF TransToken wf(2)] by (rule items_hash_eq)
    with TransToken same show ?thesis by simp
  qed (use "1.prems" in auto)
next
  case (2 ns tok ps pl other)
  show ?case
  proof (cases other)
    case (PluralTransToken ns' tok' ps' pl')
    with "2.prems" have wf: "dict_wf ps" "items_wf ps" and len: "length ps = length ps'"
      and ie: "items_eq ps ps'" and same: "ns = ns'" "tok = tok'" "pl = pl'"
      by auto
    from wf(1) have d: "distinct (map fst ps)" by (simp add: dict_wf_def)
    have d': "distinct (map fst ps')"
      using d len ie by (rule dict_eq_distinct)
    have "items_hash h ps = items_hash h ps'"
      using d d' len ie "2.IH" [OF PluralTransToken wf(2)] by (rule items_hash_eq)
    with PluralTransToken same show ?thesis by simp
  qed (use "2.prems" in auto)
next
  case (3 ns tok ps ch srt other)
  then show ?case by (cases other) auto
next
  case (4 ys)
  then show ?case by simp
next
  case (5 x xs ys)
  then show ?case by (cases ys) auto
next
  case (6 s w)
  then show ?case by (cases w) auto
next
  case (7 i w)
  then show ?case by (cases w) auto
next
  case (8 w)
  then show ?case by (cases w) auto
next
  case (9 t w)
  then show ?case by (cases w) auto
next
  case (10 qs)
  then show ?case by simp
next
  case (11 k v ps qs)
  from "11.prems"(2) consider "(k', v') = (k, v)" | "(k', v') \<in> set ps" by auto
  then show ?case
  proof cases
    case 1
    with "11.prems" "11.IH"(1) [of w'] show ?thesis by auto
  next
    case 2
    with "11.prems" "11.IH"(2) [of k' v' w'] show ?thesis by auto
  qed
qed

lemma token_eq_hash:
  "token_wf t \<Longrightarrow> token_eq t u \<Longrightarrow> token_hash h t = token_hash h u"
  by (rule token_eq_hash_aux)

text \<open>Tokens equal in the specification's sense are equal for the code.\<close>

lemma spec_eq_token_eq_aux:
  "spec_eq t u \<Longrightarrow> token_eq t u"
  "spec_children_eq ts us \<Longrightarrow> children_eq ts us"
  "spec_value_eq v w \<Longrightarrow> value_eq v w"
  "spec_items_eq ps qs \<Longrightarrow> items_eq ps qs"
proof (induction t u and ts us and v w and ps qs
    rule: spec_eq_spec_children_eq_spec_value_eq_spec_items_eq.induct)
  case (1 ns tok ps other)
  then show ?case by (cases other) auto
next
  case (2 ns tok ps pl other)
  then show ?case by (cases other) auto
next
  case (3 ns tok ps ch srt other)
  then show ?case by (cases other) auto
next
  case (4 ys)
  then show ?case by simp
next
  case (5 x xs ys)
  then show ?case by (cases ys) auto
next
  case (6 s w)
  then show ?case by (cases w) auto
next
  case (7 i w)
  then show ?case by (cases w) auto
next
  case (8 w)
  then show ?case by (cases w) auto
next
  case (9 t w)
  then show ?case by (cases w) auto
next
  case (10 qs)
  then show ?case by simp
next
  case (11 k v ps qs)
  then show ?case by (auto split: option.splits)
qed

lemma spec_eq_token_eq: "spec_eq t u \<Longrightarrow> token_eq t u"
  by (rule spec_eq_token_eq_aux)

text \<open>
  Claim C3 at two Join tokens that differ in the parameters of the separator only:
  \<open>Token.ui("{s}", s=", ").join([a, b])\<close> and \<open>Token.ui("{s}", s="; ").join([a, b])\<close>.
  \<open>JoinTransToken.__eq__\<close> compares namespace, token and children, and finds them equal;
  their parameters are not equal, the specification's equality tells them apart, and they
  resolve to different strings.
\<close>

theorem C3_join_eq_ignores_parameters:
  "token_eq (JoinTransToken NS_UI ''{s}'' [(''s'', PyStr '', '')] [ui ''a'' [], ui ''b'' []] False)
            (JoinTransToken NS_UI ''{s}'' [(''s'', PyStr ''; '')] [ui ''a'' [], ui ''b'' []] False) \<and>
   \<not> dict_eq [(''s'', PyStr '', '')] [(''s'', PyStr ''; '')] \<and>
   \<not> spec_eq (JoinTransToken NS_UI ''{s}'' [(''s'', PyStr '', '')] [ui ''a'' [], ui ''b'' []] False)
              (JoinTransToken NS_UI ''{s}'' [(''s'', PyStr ''; '')] [ui ''a'' [], ui ''b'' []] False) \<and>
   token_str initial_state
     (JoinTransToken NS_UI ''{s}'' [(''s'', PyStr '', '')] [ui ''a'' [], ui ''b'' []] False) = Inr ''a, b'' \<and>
   token_str initial_state
     (JoinTransToken NS_UI ''{s}'' [(''s'', PyStr ''; '')] [ui ''a'' [], ui ''b'' []] False) = Inr ''a; b''"
  by (simp add: ui_def dict_eq_def TransToken_body_def initial_state_def namespaces_distinct
      apply_parameters_def format_map_def emit_def field_value_def special_field_def is_digit_def
      code_point_def)

section \<open>Loading basemodui.txt\<close>

text \<open>
  Claim C7, as the code has it. Once the game namespace is in the table, a call of
  \<open>load_basemodui\<close> changes nothing, whatever its argument and whatever the files; so
  after a call that found its file every later call changes nothing. A call whose file is
  missing raises nothing and leaves the state as it was.
\<close>

theorem C7_load_basemodui_once:
  "(TRANSLATIONS st NS_GAME \<noteq> None \<longrightarrow> load_basemodui fs loc st = st) \<and>
   (fs loc = Some lines \<longrightarrow>
      load_basemodui fs' loc' (load_basemodui fs loc st) = load_basemodui fs loc st) \<and>
   (fs loc = None \<longrightarrow> load_basemodui fs loc st = st)"
  by (auto simp: load_basemodui_def)

text \<open>
  The theorem of claim C7 on the example file system: the file is loaded, a second call
  for another path and without any file changes nothing, and a call for a missing file
  leaves the initial state.
\<close>

theorem C7_load_basemodui_once_witness:
  "example_fs ''basemodui.txt'' \<noteq> None \<and> example_fs ''other.txt'' = None \<and>
   TRANSLATIONS (load_basemodui example_fs ''basemodui.txt'' initial_state) NS_GAME \<noteq> None \<and>
   load_basemodui Map.empty ''other.txt'' (load_basemodui example_fs ''basemodui.txt'' initial_state)
     = load_basemodui example_fs ''basemodui.txt'' initial_state \<and>
   load_basemodui example_fs ''other.txt'' initial_state = initial_state \<and>
   lookup_translation (load_basemodui example_fs ''basemodui.txt'' initial_state)
     NS_GAME ''PORTAL2_PuzzleEditor_Cube'' = ''Cube''"
proof -
  have a: "example_fs ''basemodui.txt''
             = Some [[CHR 0x22] @ ''PORTAL2_PuzzleEditor_Cube'' @ [CHR 0x22] @ '' '' @ [CHR 0x22] @ ''Cube'' @ [CHR 0x22], ''}'']"
    by (simp add: example_fs_def)
  have b: "example_fs ''other.txt'' = None"
    by (simp add: example_fs_def)
  have c: "TRANSLATIONS initial_state NS_GAME = None"
    by (simp add: initial_state_def)
  have d: "lookup_translation (load_basemodui example_fs ''basemodui.txt'' initial_state)
     NS_GAME ''PORTAL2_PuzzleEditor_Cube'' = ''Cube''"
    by (simp add: load_basemodui_def a c lookup_translation_def basemod_line_def startswith_def
        PETI_KEY_PREFIX_def)
  have e: "TRANSLATIONS (load_basemodui example_fs ''basemodui.txt'' initial_state) NS_GAME \<noteq> None"
    by (simp add: load_basemodui_def a c)
  from C7_load_basemodui_once [of initial_state example_fs "''basemodui.txt''" _ Map.empty "''other.txt''"]
    C7_load_basemodui_once [of initial_state example_fs "''other.txt''"]
    a b d e
  show ?thesis by simp
qed

text \<open>
  Claim C7 as stated fails after a first call whose file was missing: that call leaves
  the game namespace out of the table, and a second call, for a file that exists, loads
  it.
\<close>

theorem C7_counterexample:
  "load_basemodui example_fs ''other.txt'' initial_state = initial_state \<and>
   TRANSLATIONS initial_state NS_GAME = None \<and>
   TRANSLATIONS (load_basemodui example_fs ''basemodui.txt''
                   (load_basemodui example_fs ''other.txt'' initial_state)) NS_GAME \<noteq> None"
  by (simp add: load_basemodui_def example_fs_def initial_state_def)

section \<open>The refresh pass of set_language\<close>















lemma install_translator_fields:
  "TRANSLATOR (install_translator env lang_code tr st) = tr"
  "applied_tokens (install_translator env lang_code tr st) = applied_tokens st"
  "applied_menu_tokens (install_translator env lang_code tr st) = applied_menu_tokens st"
  "langchange_callback (install_translator env lang_code tr st) = langchange_callback st"
  "calls (install_translator env lang_code tr st) = calls st"
  "TRANSLATIONS (install_translator env lang_code tr st) = TRANSLATIONS st"
  by (simp_all add: install_translator_def set_flags_def)

text \<open>
  The passthrough and the dummy translator never answer \<open>YES\<close> to the font question, so
  the font branch needs a compiled catalog.
\<close>

lemma sans_serif_needs_catalog:
  "gettext NullTranslations ''__LANG_USE_SANS_SERIF__'' \<noteq> ''YES''"
  "gettext DummyTranslations ''__LANG_USE_SANS_SERIF__'' \<noteq> ''YES''"
  by (simp_all add: dummy_gettext_def)



text \<open>Facts about the examples.\<close>

lemma mo_name_fr:
  "mo_name ''fr_FR.ISO8859-1'' = Inr ''fr_FR.ISO8859-1.mo''"
  "mo_name ''fr_FR'' = Inr ''fr_FR.mo''"
  "mo_name ''fr.ISO8859-1'' = Inr ''fr.ISO8859-1.mo''"
  "mo_name ''fr'' = Inr ''fr.mo''"
  "mo_name ''ja'' = Inr ''ja.mo''"
  "mo_name ''xx'' = Inr ''xx.mo''"
  by (simp_all add: mo_name_def str_format_def emit_def)


lemma select_ja:
  "select_translator (example_env\<lparr>tkinter_font := False\<rparr>) ''ja'' = Inr (GNUTranslations japanese)"
  by (simp add: select_translator_def example_env_def mo_name_fr)




text \<open>
  Three more ways out of \<open>set_language\<close> before the refresh pass. The return at the
  failed import: with a catalog that asks for the sans-serif font and no \<open>tkinter.font\<close>,
  the function ends before the three loops, and makes no call. The call of
  \<open>logger.warning\<close>: for a code without catalog, other than \<open>dummy\<close> and without \<open>en\<close>
  among its expansions, the function raises before the translator is assigned. The name
  of the file: a code with braces can make \<open>format\<close> raise.
\<close>

lemma set_language_font_import_return:
  "set_language (example_env\<lparr>tkinter_font := False\<rparr>) ''ja'' bound_state
     = Some (install_translator (example_env\<lparr>tkinter_font := False\<rparr>) ''ja''
               (GNUTranslations japanese) bound_state, None) \<and>
   calls (install_translator (example_env\<lparr>tkinter_font := False\<rparr>) ''ja''
            (GNUTranslations japanese) bound_state) = []"
  by (simp add: set_language_def Let_def install_translator_fields select_ja japanese_def
      bound_state_def initial_state_def)

lemma set_language_logger_warning:
  "set_language example_env ''xx'' bound_state
     = Some (set_flags example_env ''xx'' bound_state,
             Some (AttributeError (''module 'srctools.logger' has no attribute 'warning'' @ [CHR 0x27]))) \<and>
   TRANSLATOR (set_flags example_env ''xx'' bound_state) = TRANSLATOR bound_state \<and>
   calls (set_flags example_env ''xx'' bound_state) = []"
  by (simp add: set_language_def select_translator_def example_env_def mo_name_fr set_flags_def
      bound_state_def initial_state_def)

lemma set_language_braces:
  "mo_name ''{x}'' = Inl (KeyError ''x'') \<and>
   mo_name ''{}'' = Inr ''{}.mo'' \<and>
   set_language example_env ''{x}'' bound_state
     = Some (set_flags example_env ''{x}'' bound_state, Some (KeyError ''x''))"
  by (simp add: set_language_def select_translator_def example_env_def mo_name_def
      str_format_def emit_def positional_value_def positional_arg_def special_field_def
      is_digit_def code_point_def)

end
